theory Spec2Isabelle
  imports Main "HOL-Library.Word"
begin

section \<open>Python values and exceptions\<close>

text \<open>
  The interface of ccsdspy (\<^verbatim>\<open>ccsdspy/interface.py\<close>) is dynamically typed: the
  constructor of \<^verbatim>\<open>PacketField\<close> receives arbitrary objects and checks their types
  itself. The values it can tell apart are modelled by \<open>pyval\<close>: \<open>None\<close>, booleans,
  integers (\<^verbatim>\<open>int\<close> and \<^verbatim>\<open>np.integer\<close>), strings, and \<open>PyOther\<close> for an object of any
  other builtin type (a float, a list, bytes), which is neither a \<^verbatim>\<open>str\<close> nor an
  \<^verbatim>\<open>int\<close> and compares unequal to every string.
\<close>

datatype pyval = PyNone | PyBool bool | PyInt int | PyStr string | PyOther

text \<open>Every \<^verbatim>\<open>raise\<close> of the source is a value: the exception class and its message.\<close>

datatype error =
    TypeError string
  | ValueError string
  | IndexError string
  | KeyError string
  | OSError string

text \<open>\<^verbatim>\<open>isinstance(v, str)\<close>.\<close>

fun isinstance_str :: "pyval \<Rightarrow> bool" where
  "isinstance_str (PyStr s) = True"
| "isinstance_str v = False"

text \<open>
  \<^verbatim>\<open>isinstance(v, (int, np.integer))\<close>. In Python \<^verbatim>\<open>bool\<close> is a subclass of
  \<^verbatim>\<open>int\<close>, so \<^verbatim>\<open>True\<close> and \<^verbatim>\<open>False\<close> pass this test.
\<close>

fun isinstance_int :: "pyval \<Rightarrow> bool" where
  "isinstance_int (PyInt i) = True"
| "isinstance_int (PyBool b) = True"
| "isinstance_int v = False"

section \<open>PacketField\<close>

text \<open>
  The five private attributes \<^verbatim>\<open>_name\<close>, \<^verbatim>\<open>_data_type\<close>, \<^verbatim>\<open>_bit_length\<close>,
  \<^verbatim>\<open>_bit_offset\<close>, \<^verbatim>\<open>_byte_order\<close>. The constructor stores its arguments as they
  are, so each attribute holds a \<open>pyval\<close>.
\<close>

record PacketField =
  p_name :: pyval
  p_data_type :: pyval
  p_bit_length :: pyval
  p_bit_offset :: pyval
  p_byte_order :: pyval

definition valid_data_types :: "pyval list" where
  "valid_data_types = [PyStr ''uint'', PyStr ''int'', PyStr ''float'', PyStr ''str'', PyStr ''fill'']"

definition valid_byte_orders :: "pyval list" where
  "valid_byte_orders = [PyStr ''big'', PyStr ''little'']"

text \<open>
  \<^verbatim>\<open>PacketField.__init__(self, name, data_type, bit_length, bit_offset=None, byte_order='big')\<close>:
  four type checks, two membership checks, then the five assignments. A caller that
  omits an optional argument passes \<open>PyNone\<close>, respectively \<open>PyStr ''big''\<close>.
\<close>

definition PacketField_init ::
  "pyval \<Rightarrow> pyval \<Rightarrow> pyval \<Rightarrow> pyval \<Rightarrow> pyval \<Rightarrow> error + PacketField" where
  "PacketField_init name data_type bit_length bit_offset byte_order =
     (if \<not> isinstance_str name then
        Inl (TypeError ''name parameter must be a str'')
      else if \<not> isinstance_str data_type then
        Inl (TypeError ''data_type parameter must be a str'')
      else if \<not> isinstance_int bit_length then
        Inl (TypeError ''bit_length parameter must be an int'')
      else if \<not> (bit_offset = PyNone \<or> isinstance_int bit_offset) then
        Inl (TypeError ''bit_offset parameter must be an int'')
      else if data_type \<notin> set valid_data_types then
        Inl (ValueError ''data_type must be one of ('uint', 'int', 'float', 'str', 'fill')'')
      else if byte_order \<notin> set valid_byte_orders then
        Inl (ValueError ''byte_order must be one of ('big', 'little')'')
      else
        Inr \<lparr>p_name = name, p_data_type = data_type, p_bit_length = bit_length,
             p_bit_offset = bit_offset, p_byte_order = byte_order\<rparr>)"

text \<open>\<^verbatim>\<open>PacketField.__iter__\<close>: the items of the list the iterator runs over.\<close>

definition PacketField_iter :: "PacketField \<Rightarrow> (string \<times> pyval) list" where
  "PacketField_iter self =
     [(''name'', p_name self), (''dataType'', p_data_type self),
      (''bitLength'', p_bit_length self), (''bitOffset'', p_bit_offset self),
      (''byteOrder'', p_byte_order self)]"

section \<open>Exceptions as values\<close>

text \<open>
  Sequencing of computations that may raise: the second runs only if the first returned.
\<close>

definition bind_err :: "error + 'a \<Rightarrow> ('a \<Rightarrow> error + 'b) \<Rightarrow> error + 'b" where
  "bind_err m k = (case m of Inl e \<Rightarrow> Inl e | Inr v \<Rightarrow> k v)"

text \<open>
  A list display \<^verbatim>\<open>[e1, e2, ...]\<close> evaluates its elements from left to right; the
  first exception ends the evaluation.
\<close>

fun list_display :: "(error + 'a) list \<Rightarrow> error + 'a list" where
  "list_display [] = Inr []"
| "list_display (m # ms) =
     bind_err m (\<lambda>v. bind_err (list_display ms) (\<lambda>vs. Inr (v # vs)))"

section \<open>List objects\<close>

text \<open>
  Python lists are mutable objects reached through references, and \<^verbatim>\<open>FixedLength\<close>
  keeps a reference to one in \<^verbatim>\<open>self._fields\<close>. The heap maps the address of each
  list object to its present contents; \<open>next_addr\<close> is the first address not yet in
  use, so an address is that of a live object iff it is below \<open>next_addr\<close>.
  \<^verbatim>\<open>PacketField\<close> objects have no mutating method; a list's elements are modelled by
  their values.
\<close>

record pyheap =
  cells :: "nat \<Rightarrow> PacketField list"
  next_addr :: nat

definition empty_heap :: pyheap where
  "empty_heap = \<lparr>cells = (\<lambda>a. []), next_addr = 0\<rparr>"

definition alloc :: "pyheap \<Rightarrow> PacketField list \<Rightarrow> pyheap \<times> nat" where
  "alloc h xs =
     (h\<lparr>cells := (cells h)(next_addr h := xs), next_addr := Suc (next_addr h)\<rparr>, next_addr h)"

definition deref :: "pyheap \<Rightarrow> nat \<Rightarrow> PacketField list" where
  "deref h a = cells h a"

definition heap_store :: "pyheap \<Rightarrow> nat \<Rightarrow> PacketField list \<Rightarrow> pyheap" where
  "heap_store h a xs = h\<lparr>cells := (cells h)(a := xs)\<rparr>"

text \<open>
  What a caller can do to a list it holds: \<^verbatim>\<open>xs.append(x)\<close>, \<^verbatim>\<open>xs[i] = x\<close> and
  \<^verbatim>\<open>del xs[i]\<close>, with Python's indexing (a negative index counts from the end, an
  index out of range raises \<^verbatim>\<open>IndexError\<close> and leaves the list as it was).
\<close>

datatype list_op = Append PacketField | SetItem int PacketField | DelItem int

definition py_index :: "nat \<Rightarrow> int \<Rightarrow> nat option" where
  "py_index n i =
     (let j = (if i < 0 then int n + i else i)
      in if 0 \<le> j \<and> j < int n then Some (nat j) else None)"

fun list_op_apply :: "PacketField list \<Rightarrow> list_op \<Rightarrow> error + PacketField list" where
  "list_op_apply xs (Append x) = Inr (xs @ [x])"
| "list_op_apply xs (SetItem i x) =
     (case py_index (length xs) i of
        None \<Rightarrow> Inl (IndexError ''list assignment index out of range'')
      | Some j \<Rightarrow> Inr (xs[j := x]))"
| "list_op_apply xs (DelItem i) =
     (case py_index (length xs) i of
        None \<Rightarrow> Inl (IndexError ''list assignment index out of range'')
      | Some j \<Rightarrow> Inr (take j xs @ drop (Suc j) xs))"

definition mutate :: "pyheap \<Rightarrow> nat \<Rightarrow> list_op \<Rightarrow> pyheap \<times> error option" where
  "mutate h a opn =
     (case list_op_apply (deref h a) opn of
        Inl e \<Rightarrow> (h, Some e)
      | Inr ys \<Rightarrow> (heap_store h a ys, None))"

text \<open>
  A caller running several operations on the list at address \<open>a\<close>, going on after an
  operation that raised.
\<close>

fun mutate_all :: "pyheap \<Rightarrow> nat \<Rightarrow> list_op list \<Rightarrow> pyheap" where
  "mutate_all h a [] = h"
| "mutate_all h a (opn # ops) = mutate_all (fst (mutate h a opn)) a ops"

section \<open>FixedLength\<close>

text \<open>The instance holds one attribute, \<^verbatim>\<open>_fields\<close>: a reference to a list object.\<close>

record FixedLength =
  fl_fields :: nat

text \<open>
  \<^verbatim>\<open>FixedLength.__init__(self, fields)\<close>: \<^verbatim>\<open>self._fields = fields[:]\<close>. The
  argument \<open>fields_ref\<close> is the address of the caller's list; the slice builds a new
  list object with the contents the argument has at that moment.
\<close>

definition FixedLength_init :: "pyheap \<Rightarrow> nat \<Rightarrow> pyheap \<times> FixedLength" where
  "FixedLength_init h fields_ref =
     (let (h', a) = alloc h (deref h fields_ref) in (h', \<lparr>fl_fields = a\<rparr>))"

text \<open>
  The \<^verbatim>\<open>file\<close> argument of \<^verbatim>\<open>load\<close>: an object with a \<^verbatim>\<open>read\<close> attribute, modelled
  by the bytes its \<^verbatim>\<open>read()\<close> returns, or a path, looked up in the file system
  (\<^verbatim>\<open>np.fromfile\<close> raises an \<^verbatim>\<open>OSError\<close> for a path it cannot open).
\<close>

type_synonym byte = "8 word"

datatype file_arg = FileObj "byte list" | FilePath string

definition read_file_bytes :: "(string \<rightharpoonup> byte list) \<Rightarrow> file_arg \<Rightarrow> error + byte list" where
  "read_file_bytes disk file =
     (case file of
        FileObj bs \<Rightarrow> Inr bs
      | FilePath p \<Rightarrow> (case disk p of None \<Rightarrow> Inl (OSError p) | Some bs \<Rightarrow> Inr bs))"

text \<open>
  The list display of \<^verbatim>\<open>load\<close>: seven calls of the \<^verbatim>\<open>PacketField\<close> constructor, with
  \<^verbatim>\<open>byte_order\<close> left to its default.
\<close>

definition primary_header :: "error + PacketField list" where
  "primary_header = list_display
     [PacketField_init (PyStr ''CCSDS_VERSION_NUMBER'') (PyStr ''uint'') (PyInt 3) (PyInt 0) (PyStr ''big''),
      PacketField_init (PyStr ''CCSDS_PACKET_TYPE'') (PyStr ''uint'') (PyInt 1) (PyInt 3) (PyStr ''big''),
      PacketField_init (PyStr ''CCSDS_SECONDARY_FLAG'') (PyStr ''uint'') (PyInt 1) (PyInt 4) (PyStr ''big''),
      PacketField_init (PyStr ''CCSDS_APID'') (PyStr ''uint'') (PyInt 11) (PyInt 5) (PyStr ''big''),
      PacketField_init (PyStr ''CCSDS_SEQUENCE_FLAG'') (PyStr ''uint'') (PyInt 2) (PyInt 16) (PyStr ''big''),
      PacketField_init (PyStr ''CCSDS_SEQUENCE_COUNT'') (PyStr ''uint'') (PyInt 14) (PyInt 18) (PyStr ''big''),
      PacketField_init (PyStr ''CCSDS_PACKET_LENGTH'') (PyStr ''uint'') (PyInt 16) (PyInt 32) (PyStr ''big'')]"

text \<open>
  \<^verbatim>\<open>FixedLength.load(self, file, include_primary_header=False)\<close>. The decoder
  \<^verbatim>\<open>_decode_fixed_length\<close> lives in \<^verbatim>\<open>ccsdspy/decode.py\<close>; it is the parameter
  \<open>decode\<close>, a function of the byte buffer and of the contents of the field list it
  is handed, which returns the decoded columns or raises. The result of \<open>load\<close> is
  the heap and the instance as the call leaves them, and what the call returns or
  raises. With \<^verbatim>\<open>include_primary_header\<close> the concatenation \<^verbatim>\<open>[...] + self._fields\<close>
  is a new list object, and the assignment makes \<^verbatim>\<open>self._fields\<close> refer to it.
\<close>

definition load ::
  "(byte list \<Rightarrow> PacketField list \<Rightarrow> error + 'r) \<Rightarrow> (string \<rightharpoonup> byte list) \<Rightarrow>
   pyheap \<Rightarrow> FixedLength \<Rightarrow> file_arg \<Rightarrow> bool \<Rightarrow> pyheap \<times> FixedLength \<times> (error + 'r)" where
  "load decode disk h self file include_primary_header =
     (case read_file_bytes disk file of
        Inl e \<Rightarrow> (h, self, Inl e)
      | Inr file_bytes \<Rightarrow>
          if include_primary_header then
            (case primary_header of
               Inl e \<Rightarrow> (h, self, Inl e)
             | Inr header \<Rightarrow>
                 let (h', a) = alloc h (header @ deref h (fl_fields self));
                     self' = self\<lparr>fl_fields := a\<rparr>
                 in (h', self', decode file_bytes (deref h' (fl_fields self'))))
          else (h, self, decode file_bytes (deref h (fl_fields self))))"

section \<open>Reading a layout from a CSV file\<close>

text \<open>
  \<^verbatim>\<open>csv.reader\<close> and \<^verbatim>\<open>int\<close> belong to Python, not to ccsdspy. A text file is
  modelled by the rows \<^verbatim>\<open>csv.reader(fp, skipinitialspace=True)\<close> yields for it (a
  blank line yields the empty row), and the file system maps a path to these rows, or
  to \<open>None\<close> when \<^verbatim>\<open>open\<close> raises. \<^verbatim>\<open>int\<close> on a string is the parameter \<open>parse\<close>,
  which is \<open>None\<close> where \<^verbatim>\<open>int\<close> raises \<^verbatim>\<open>ValueError\<close>.
\<close>

type_synonym csv_dict = "string \<rightharpoonup> string option"

text \<open>
  \<^verbatim>\<open>csv.DictReader.fieldnames\<close>: the first row of the file, \<^verbatim>\<open>None\<close> for a file
  without rows.
\<close>

definition DictReader_fieldnames :: "string list list \<Rightarrow> string list option" where
  "DictReader_fieldnames rows = (case rows of [] \<Rightarrow> None | r # rs \<Rightarrow> Some r)"

text \<open>
  The dictionary \<^verbatim>\<open>DictReader.__next__\<close> builds from one row:
  \<^verbatim>\<open>dict(zip(fieldnames, row))\<close>, in which a later duplicate of a key wins, then
  \<^verbatim>\<open>restval\<close> (\<^verbatim>\<open>None\<close>) for the field names a short row leaves without a value. The
  surplus values of a long row go under the key \<^verbatim>\<open>None\<close>, which no lookup of the
  loader uses; only the string keys are kept.
\<close>

definition dict_of_row :: "string list \<Rightarrow> string list \<Rightarrow> csv_dict" where
  "dict_of_row fieldnames row =
     fold (\<lambda>key d. d(key \<mapsto> None)) (drop (length row) fieldnames)
       (fold (\<lambda>(key, v) d. d(key \<mapsto> Some v)) (zip fieldnames row) Map.empty)"

text \<open>The rows \<^verbatim>\<open>DictReader\<close> iterates over: it skips every empty row.\<close>

definition DictReader_rows :: "string list \<Rightarrow> string list list \<Rightarrow> csv_dict list" where
  "DictReader_rows fieldnames rows = map (dict_of_row fieldnames) (filter (\<lambda>r. r \<noteq> []) rows)"

text \<open>\<^verbatim>\<open>row[key]\<close>.\<close>

definition dict_getitem :: "csv_dict \<Rightarrow> string \<Rightarrow> error + string option" where
  "dict_getitem d key = (case d key of None \<Rightarrow> Inl (KeyError key) | Some v \<Rightarrow> Inr v)"

text \<open>A value of a row, a string or \<^verbatim>\<open>None\<close>, as an argument of the constructor.\<close>

definition cell_val :: "string option \<Rightarrow> pyval" where
  "cell_val v = (case v of None \<Rightarrow> PyNone | Some s \<Rightarrow> PyStr s)"

text \<open>
  \<^verbatim>\<open>int(v)\<close> for a value of a row. The message of the \<^verbatim>\<open>ValueError\<close> shows the
  string in quotes, as \<^verbatim>\<open>repr\<close> does for a string that needs no escaping.
\<close>

definition py_int :: "(string \<Rightarrow> int option) \<Rightarrow> string option \<Rightarrow> error + int" where
  "py_int parse v =
     (case v of
        None \<Rightarrow> Inl (TypeError (''int() argument must be a string, a bytes-like object or a real number, not 'NoneType'' @ [CHR 0x27]))
      | Some s \<Rightarrow>
          (case parse s of
             None \<Rightarrow> Inl (ValueError (''invalid literal for int() with base 10: '' @ [CHR 0x27] @ s @ [CHR 0x27]))
           | Some i \<Rightarrow> Inr i))"

definition req_columns :: "string list" where
  "req_columns = [''name'', ''data_type'', ''bit_length'']"

text \<open>
  The body of the \<^verbatim>\<open>for row in reader\<close> loop of \<^verbatim>\<open>_get_fields_csv_file\<close>: two
  \<^verbatim>\<open>if\<close> statements, one after the other, each appending one field to \<^verbatim>\<open>fields\<close>.
  The arguments of each constructor call are evaluated from left to right before the
  call.
\<close>

definition csv_loop_body ::
  "(string \<Rightarrow> int option) \<Rightarrow> string list \<Rightarrow> csv_dict \<Rightarrow> PacketField list \<Rightarrow> error + PacketField list" where
  "csv_loop_body parse headers row flds =
     bind_err
       (if ''bit_offset'' \<notin> set headers then
          bind_err (dict_getitem row ''name'') (\<lambda>name.
          bind_err (dict_getitem row ''data_type'') (\<lambda>data_type.
          bind_err (dict_getitem row ''bit_length'') (\<lambda>bl.
          bind_err (py_int parse bl) (\<lambda>bit_length.
          bind_err (PacketField_init (cell_val name) (cell_val data_type) (PyInt bit_length)
                      PyNone (PyStr ''big'')) (\<lambda>f.
          Inr (flds @ [f]))))))
        else Inr flds)
       (\<lambda>flds1.
          if ''bit_offset'' \<in> set headers then
            bind_err (dict_getitem row ''name'') (\<lambda>name.
            bind_err (dict_getitem row ''data_type'') (\<lambda>data_type.
            bind_err (dict_getitem row ''bit_length'') (\<lambda>bl.
            bind_err (py_int parse bl) (\<lambda>bit_length.
            bind_err (dict_getitem row ''bit_offset'') (\<lambda>bo.
            bind_err (py_int parse bo) (\<lambda>bit_offset.
            bind_err (PacketField_init (cell_val name) (cell_val data_type) (PyInt bit_length)
                        (PyInt bit_offset) (PyStr ''big'')) (\<lambda>f.
            Inr (flds1 @ [f]))))))))
          else Inr flds1)"

fun csv_loop ::
  "(string \<Rightarrow> int option) \<Rightarrow> string list \<Rightarrow> csv_dict list \<Rightarrow> PacketField list \<Rightarrow> error + PacketField list" where
  "csv_loop parse headers [] flds = Inr flds"
| "csv_loop parse headers (row # rows) flds =
     bind_err (csv_loop_body parse headers row flds) (csv_loop parse headers rows)"

text \<open>
  \<^verbatim>\<open>_get_fields_csv_file(csv_file)\<close>. With no row in the file \<^verbatim>\<open>headers\<close> is
  \<^verbatim>\<open>None\<close>, and the membership test of the column check raises \<^verbatim>\<open>TypeError\<close>.
\<close>

definition get_fields_csv_file ::
  "(string \<Rightarrow> int option) \<Rightarrow> (string \<rightharpoonup> string list list) \<Rightarrow> string \<Rightarrow> error + PacketField list" where
  "get_fields_csv_file parse fs csv_file =
     (case fs csv_file of
        None \<Rightarrow> Inl (OSError csv_file)
      | Some rows \<Rightarrow>
          (case DictReader_fieldnames rows of
             None \<Rightarrow> Inl (TypeError ''argument of type 'NoneType' is not iterable'')
           | Some headers \<Rightarrow>
               if \<not> list_all (\<lambda>req_col. req_col \<in> set headers) req_columns then
                 Inl (ValueError ''Minimum required columns are ['name', 'data_type', 'bit_length'].'')
               else csv_loop parse headers (DictReader_rows headers (tl rows)) []))"

section \<open>Choosing the loader by file extension\<close>

text \<open>
  \<^verbatim>\<open>os.path.splitext\<close> is Python's (\<^verbatim>\<open>genericpath._splitext\<close>, called by
  \<^verbatim>\<open>posixpath.splitext\<close> with \<^verbatim>\<open>sep = '/'\<close>, no \<^verbatim>\<open>altsep\<close> and \<^verbatim>\<open>extsep = '.'\<close>). It
  splits at the last dot of the last path component, unless that component has only
  dots before it.
\<close>

fun rfind_from :: "char \<Rightarrow> string \<Rightarrow> int \<Rightarrow> int \<Rightarrow> int" where
  "rfind_from c [] i found = found"
| "rfind_from c (x # xs) i found = rfind_from c xs (i + 1) (if x = c then i else found)"

text \<open>\<^verbatim>\<open>p.rfind(c)\<close>: the index of the last \<open>c\<close> in \<open>p\<close>, or \<open>-1\<close>.\<close>

definition rfind :: "string \<Rightarrow> char \<Rightarrow> int" where
  "rfind p c = rfind_from c p 0 (- 1)"

text \<open>
  The \<^verbatim>\<open>while filenameIndex < dotIndex\<close> loop: \<open>True\<close> when it returns the split at
  \<open>dotIndex\<close> (a character other than \<open>extsep\<close> comes before the dot), \<open>False\<close> when it
  runs out.
\<close>

function skip_leading_dots :: "string \<Rightarrow> char \<Rightarrow> nat \<Rightarrow> nat \<Rightarrow> bool" where
  "skip_leading_dots p extsep filenameIndex dotIndex =
     (if filenameIndex < dotIndex then
        (if take 1 (drop filenameIndex p) \<noteq> [extsep] then True
         else skip_leading_dots p extsep (Suc filenameIndex) dotIndex)
      else False)"
  by pat_completeness auto
termination
  by (relation "measure (\<lambda>(p, extsep, filenameIndex, dotIndex). dotIndex - filenameIndex)") auto

definition splitext_generic :: "string \<Rightarrow> char \<Rightarrow> char option \<Rightarrow> char \<Rightarrow> string \<times> string" where
  "splitext_generic p sep altsep extsep =
     (let sepIndex = (case altsep of
                        None \<Rightarrow> rfind p sep
                      | Some alt \<Rightarrow> max (rfind p sep) (rfind p alt));
          dotIndex = rfind p extsep
      in if dotIndex > sepIndex \<and>
            skip_leading_dots p extsep (nat (sepIndex + 1)) (nat dotIndex)
         then (take (nat dotIndex) p, drop (nat dotIndex) p)
         else (p, []))"

definition os_path_splitext :: "string \<Rightarrow> string \<times> string" where
  "os_path_splitext p = splitext_generic p (CHR ''/'') None (CHR ''.'')"

text \<open>
  \<^verbatim>\<open>FixedLength.from_file(cls, file)\<close>. The list the loader returns is a list object
  of its own; \<^verbatim>\<open>cls(fields)\<close> then copies it as every construction does.
\<close>

definition FixedLength_from_file ::
  "(string \<Rightarrow> int option) \<Rightarrow> (string \<rightharpoonup> string list list) \<Rightarrow> pyheap \<Rightarrow> string \<Rightarrow>
   pyheap \<times> (error + FixedLength)" where
  "FixedLength_from_file parse fs h file =
     (let file_extension = os_path_splitext file in
      if snd file_extension = ''.csv'' then
        (case get_fields_csv_file parse fs file of
           Inl e \<Rightarrow> (h, Inl e)
         | Inr flds \<Rightarrow>
             let (h1, fields_ref) = alloc h flds;
                 (h2, inst) = FixedLength_init h1 fields_ref
             in (h2, Inr inst))
      else (h, Inl (ValueError (''File type '' @ snd file_extension @ '' not supported.''))))"

section \<open>Example inputs\<close>

text \<open>
  Concrete inputs at which the theorems below are exercised: two fields, one packet
  (a six-byte primary header and one byte of data), a heap holding a caller's list
  with one field at address 0, and a stand-in for the decoder that returns the names
  of the fields of the layout it is handed.
\<close>

definition example_field :: PacketField where
  "example_field = \<lparr>p_name = PyStr ''VOLTAGE'', p_data_type = PyStr ''int'', p_bit_length = PyInt 8,
                      p_bit_offset = PyNone, p_byte_order = PyStr ''big''\<rparr>"

definition other_field :: PacketField where
  "other_field = \<lparr>p_name = PyStr ''OPMODE'', p_data_type = PyStr ''uint'', p_bit_length = PyInt 8,
                    p_bit_offset = PyNone, p_byte_order = PyStr ''big''\<rparr>"

definition example_packet :: "byte list" where
  "example_packet = [0x08, 0x01, 0xC0, 0x00, 0x00, 0x00, 0x2A]"

definition caller_heap :: pyheap where
  "caller_heap = fst (alloc empty_heap [example_field])"

definition names_decoder :: "byte list \<Rightarrow> PacketField list \<Rightarrow> error + pyval list" where
  "names_decoder file_bytes flds = Inr (map p_name flds)"

text \<open>
  A stand-in for \<^verbatim>\<open>int\<close> on strings, for the examples: it reads the unsigned decimal
  numerals, which \<^verbatim>\<open>int\<close> reads the same way, and rejects every other string.
\<close>

fun digit_of :: "char \<Rightarrow> nat option" where
  "digit_of c = (let n = (of_char c :: nat) in if 48 \<le> n \<and> n \<le> 57 then Some (n - 48) else None)"

fun digits_value :: "string \<Rightarrow> nat \<Rightarrow> nat option" where
  "digits_value [] acc = Some acc"
| "digits_value (c # cs) acc =
     (case digit_of c of None \<Rightarrow> None | Some d \<Rightarrow> digits_value cs (10 * acc + d))"

definition parse_decimal :: "string \<Rightarrow> int option" where
  "parse_decimal s = (if s = [] then None else map_option int (digits_value s 0))"

text \<open>
  Three layout files as rows: three columns with a blank line, four columns with
  \<^verbatim>\<open>bit_offset\<close>, and one without the \<^verbatim>\<open>data_type\<close> column; and a file system
  holding them.
\<close>

definition simple_csv_3col :: "string list list" where
  "simple_csv_3col =
     [[''name'', ''data_type'', ''bit_length''],
      [''SHCOARSE'', ''uint'', ''32''],
      [],
      [''VOLTAGE'', ''int'', ''8'']]"

definition simple_csv_4col :: "string list list" where
  "simple_csv_4col =
     [[''name'', ''data_type'', ''bit_length'', ''bit_offset''],
      [''SHCOARSE'', ''uint'', ''32'', ''48''],
      [''VOLTAGE'', ''int'', ''8'', ''80'']]"

definition csv_without_data_type :: "string list list" where
  "csv_without_data_type =
     [[''name'', ''bit_length''],
      [''SHCOARSE'', ''32'']]"

definition example_fs :: "string \<rightharpoonup> string list list" where
  "example_fs =
     [''simple_csv_3col.csv'' \<mapsto> simple_csv_3col,
      ''simple_csv_4col.csv'' \<mapsto> simple_csv_4col,
      ''bad.csv'' \<mapsto> csv_without_data_type,
      ''layout.txt'' \<mapsto> simple_csv_3col]"

section \<open>Properties of the constructor\<close>

lemma PacketField_init_Inr_iff:
  "PacketField_init n d l off b = Inr f \<longleftrightarrow>
     isinstance_str n \<and> isinstance_str d \<and> isinstance_int l \<and>
     (off = PyNone \<or> isinstance_int off) \<and>
     d \<in> set valid_data_types \<and> b \<in> set valid_byte_orders \<and>
     f = \<lparr>p_name = n, p_data_type = d, p_bit_length = l, p_bit_offset = off, p_byte_order = b\<rparr>"
  unfolding PacketField_init_def by auto

text \<open>
  C4. A \<^verbatim>\<open>data_type\<close> outside \<^verbatim>\<open>{'uint', 'int', 'float', 'str', 'fill'}\<close> or a
  \<^verbatim>\<open>byte_order\<close> outside \<^verbatim>\<open>{'big', 'little'}\<close> makes the constructor raise, and a
  construction that returns has its \<^verbatim>\<open>_data_type\<close> and \<^verbatim>\<open>_byte_order\<close> inside these
  sets.
\<close>

theorem PacketField_init_type_and_order_checked:
  "(d \<notin> PyStr ` {''uint'', ''int'', ''float'', ''str'', ''fill''} \<or>
    b \<notin> PyStr ` {''big'', ''little''} \<longrightarrow>
      (\<exists>e. PacketField_init n d l off b = Inl e)) \<and>
   (\<forall>f. PacketField_init n d l off b = Inr f \<longrightarrow>
      p_data_type f = d \<and> p_byte_order f = b \<and>
      d \<in> PyStr ` {''uint'', ''int'', ''float'', ''str'', ''fill''} \<and>
      b \<in> PyStr ` {''big'', ''little''})"
proof -
  have sets: "set valid_data_types = PyStr ` {''uint'', ''int'', ''float'', ''str'', ''fill''}"
             "set valid_byte_orders = PyStr ` {''big'', ''little''}"
    by (simp_all add: valid_data_types_def valid_byte_orders_def)
  have ok: "PacketField_init n d l off b = Inr f \<Longrightarrow>
      p_data_type f = d \<and> p_byte_order f = b \<and>
      d \<in> set valid_data_types \<and> b \<in> set valid_byte_orders" for f
    by (simp add: PacketField_init_Inr_iff)
  have bad: "d \<notin> set valid_data_types \<or> b \<notin> set valid_byte_orders \<Longrightarrow>
      \<exists>e. PacketField_init n d l off b = Inl e"
    using ok by (cases "PacketField_init n d l off b") auto
  show ?thesis
    using ok bad unfolding sets by blast
qed

theorem PacketField_init_type_and_order_checked_witness:
  "PyStr ''double'' \<notin> PyStr ` {''uint'', ''int'', ''float'', ''str'', ''fill''} \<and>
   (\<exists>e. PacketField_init (PyStr ''VOLTAGE'') (PyStr ''double'') (PyInt 64) PyNone (PyStr ''big'') = Inl e) \<and>
   PacketField_init (PyStr ''VOLTAGE'') (PyStr ''int'') (PyInt 8) PyNone (PyStr ''little'') =
     Inr \<lparr>p_name = PyStr ''VOLTAGE'', p_data_type = PyStr ''int'', p_bit_length = PyInt 8,
          p_bit_offset = PyNone, p_byte_order = PyStr ''little''\<rparr> \<and>
   PyStr ''int'' \<in> PyStr ` {''uint'', ''int'', ''float'', ''str'', ''fill''} \<and>
   PyStr ''little'' \<in> PyStr ` {''big'', ''little''}"
proof -
  have bad: "PyStr ''double'' \<notin> PyStr ` {''uint'', ''int'', ''float'', ''str'', ''fill''}"
    by simp
  have good: "PacketField_init (PyStr ''VOLTAGE'') (PyStr ''int'') (PyInt 8) PyNone (PyStr ''little'') =
     Inr \<lparr>p_name = PyStr ''VOLTAGE'', p_data_type = PyStr ''int'', p_bit_length = PyInt 8,
          p_bit_offset = PyNone, p_byte_order = PyStr ''little''\<rparr>"
    by (simp add: PacketField_init_def valid_data_types_def valid_byte_orders_def)
  from bad
    PacketField_init_type_and_order_checked
      [of "PyStr ''double''" "PyStr ''big''" "PyStr ''VOLTAGE''" "PyInt 64" PyNone]
  have 1: "\<exists>e. PacketField_init (PyStr ''VOLTAGE'') (PyStr ''double'') (PyInt 64) PyNone (PyStr ''big'') = Inl e"
    by blast
  from good
    PacketField_init_type_and_order_checked
      [of "PyStr ''int''" "PyStr ''little''" "PyStr ''VOLTAGE''" "PyInt 8" PyNone]
  have 2: "PyStr ''int'' \<in> PyStr ` {''uint'', ''int'', ''float'', ''str'', ''fill''} \<and>
           PyStr ''little'' \<in> PyStr ` {''big'', ''little''}"
    by blast
  from bad 1 good 2 show ?thesis by blast
qed

text \<open>
  C10. Iterating a constructed \<^verbatim>\<open>PacketField\<close> yields five key-value pairs in the
  order \<^verbatim>\<open>name\<close>, \<^verbatim>\<open>dataType\<close>, \<^verbatim>\<open>bitLength\<close>, \<^verbatim>\<open>bitOffset\<close>, \<^verbatim>\<open>byteOrder\<close>, with
  the values the field was constructed with.
\<close>

theorem PacketField_iter_items:
  "PacketField_init n d l off b = Inr f \<Longrightarrow>
   PacketField_iter f =
     [(''name'', n), (''dataType'', d), (''bitLength'', l), (''bitOffset'', off), (''byteOrder'', b)]"
  by (simp add: PacketField_init_Inr_iff PacketField_iter_def)

theorem PacketField_iter_items_witness:
  "PacketField_init (PyStr ''SHCOARSE'') (PyStr ''uint'') (PyInt 32) (PyInt 48) (PyStr ''big'') =
     Inr \<lparr>p_name = PyStr ''SHCOARSE'', p_data_type = PyStr ''uint'', p_bit_length = PyInt 32,
          p_bit_offset = PyInt 48, p_byte_order = PyStr ''big''\<rparr> \<and>
   PacketField_iter \<lparr>p_name = PyStr ''SHCOARSE'', p_data_type = PyStr ''uint'',
       p_bit_length = PyInt 32, p_bit_offset = PyInt 48, p_byte_order = PyStr ''big''\<rparr> =
     [(''name'', PyStr ''SHCOARSE''), (''dataType'', PyStr ''uint''), (''bitLength'', PyInt 32),
      (''bitOffset'', PyInt 48), (''byteOrder'', PyStr ''big'')]"
proof -
  have c: "PacketField_init (PyStr ''SHCOARSE'') (PyStr ''uint'') (PyInt 32) (PyInt 48) (PyStr ''big'') =
     Inr \<lparr>p_name = PyStr ''SHCOARSE'', p_data_type = PyStr ''uint'', p_bit_length = PyInt 32,
          p_bit_offset = PyInt 48, p_byte_order = PyStr ''big''\<rparr>"
    by (simp add: PacketField_init_def valid_data_types_def valid_byte_orders_def)
  from c PacketField_iter_items [OF c] show ?thesis by (rule conjI)
qed

text \<open>
  C3, as stated: a zero or negative \<^verbatim>\<open>bit_length\<close>, and a \<^verbatim>\<open>bit_length\<close> other than
  32 or 64 with the type \<^verbatim>\<open>float\<close>, would make the constructor raise. The constructor
  checks only that \<^verbatim>\<open>bit_length\<close> is an integer; these three constructions return.
\<close>

theorem PacketField_init_bit_length_counterexample:
  "PacketField_init (PyStr ''ZERO'') (PyStr ''uint'') (PyInt 0) PyNone (PyStr ''big'') =
     Inr \<lparr>p_name = PyStr ''ZERO'', p_data_type = PyStr ''uint'', p_bit_length = PyInt 0,
          p_bit_offset = PyNone, p_byte_order = PyStr ''big''\<rparr> \<and>
   PacketField_init (PyStr ''NEG'') (PyStr ''int'') (PyInt (- 8)) PyNone (PyStr ''big'') =
     Inr \<lparr>p_name = PyStr ''NEG'', p_data_type = PyStr ''int'', p_bit_length = PyInt (- 8),
          p_bit_offset = PyNone, p_byte_order = PyStr ''big''\<rparr> \<and>
   PacketField_init (PyStr ''HALF'') (PyStr ''float'') (PyInt 16) PyNone (PyStr ''big'') =
     Inr \<lparr>p_name = PyStr ''HALF'', p_data_type = PyStr ''float'', p_bit_length = PyInt 16,
          p_bit_offset = PyNone, p_byte_order = PyStr ''big''\<rparr>"
  by (simp add: PacketField_init_def valid_data_types_def valid_byte_orders_def)

text \<open>
  C3, amended: a \<^verbatim>\<open>bit_length\<close> that is not an integer makes the constructor raise
  \<^verbatim>\<open>TypeError\<close>; the value of an integer \<^verbatim>\<open>bit_length\<close> is never a ground for
  rejection: with a string name, one of the five data types, an integer
  \<^verbatim>\<open>bit_length\<close>, a \<^verbatim>\<open>bit_offset\<close> that is \<^verbatim>\<open>None\<close> or an integer, and one of the two
  byte orders, the construction returns and stores \<^verbatim>\<open>bit_length\<close> as given.
\<close>

theorem PacketField_init_bit_length_type_only:
  "(\<not> isinstance_int l \<longrightarrow> (\<exists>msg. PacketField_init n d l off b = Inl (TypeError msg))) \<and>
   (isinstance_str n \<and> d \<in> PyStr ` {''uint'', ''int'', ''float'', ''str'', ''fill''} \<and>
    isinstance_int l \<and> (off = PyNone \<or> isinstance_int off) \<and>
    b \<in> PyStr ` {''big'', ''little''} \<longrightarrow>
      PacketField_init n d l off b =
        Inr \<lparr>p_name = n, p_data_type = d, p_bit_length = l, p_bit_offset = off,
             p_byte_order = b\<rparr>)"
proof (intro conjI impI)
  assume "\<not> isinstance_int l"
  then show "\<exists>msg. PacketField_init n d l off b = Inl (TypeError msg)"
    by (simp add: PacketField_init_def)
next
  assume a: "isinstance_str n \<and> d \<in> PyStr ` {''uint'', ''int'', ''float'', ''str'', ''fill''} \<and>
    isinstance_int l \<and> (off = PyNone \<or> isinstance_int off) \<and>
    b \<in> PyStr ` {''big'', ''little''}"
  then have "isinstance_str d" by auto
  moreover have "d \<in> set valid_data_types" "b \<in> set valid_byte_orders"
    using a by (auto simp: valid_data_types_def valid_byte_orders_def)
  ultimately show "PacketField_init n d l off b =
        Inr \<lparr>p_name = n, p_data_type = d, p_bit_length = l, p_bit_offset = off,
             p_byte_order = b\<rparr>"
    using a by (simp add: PacketField_init_Inr_iff)
qed

theorem PacketField_init_bit_length_type_only_witness:
  "\<not> isinstance_int (PyStr ''8'') \<and>
   (\<exists>msg. PacketField_init (PyStr ''OPMODE'') (PyStr ''uint'') (PyStr ''8'') PyNone (PyStr ''big'') =
      Inl (TypeError msg)) \<and>
   PacketField_init (PyStr ''OPMODE'') (PyStr ''float'') (PyInt (- 3)) (PyInt 48) (PyStr ''big'') =
     Inr \<lparr>p_name = PyStr ''OPMODE'', p_data_type = PyStr ''float'', p_bit_length = PyInt (- 3),
          p_bit_offset = PyInt 48, p_byte_order = PyStr ''big''\<rparr>"
proof -
  have 1: "\<not> isinstance_int (PyStr ''8'')" by simp
  have 2: "isinstance_str (PyStr ''OPMODE'') \<and>
      PyStr ''float'' \<in> PyStr ` {''uint'', ''int'', ''float'', ''str'', ''fill''} \<and>
      isinstance_int (PyInt (- 3)) \<and> (PyInt 48 = PyNone \<or> isinstance_int (PyInt 48)) \<and>
      PyStr ''big'' \<in> PyStr ` {''big'', ''little''}"
    by simp
  from 1 PacketField_init_bit_length_type_only
      [of "PyStr ''8''" "PyStr ''OPMODE''" "PyStr ''uint''" PyNone "PyStr ''big''"]
  have 3: "\<exists>msg. PacketField_init (PyStr ''OPMODE'') (PyStr ''uint'') (PyStr ''8'') PyNone (PyStr ''big'') =
      Inl (TypeError msg)"
    by blast
  from 2 PacketField_init_bit_length_type_only
      [of "PyInt (- 3)" "PyStr ''OPMODE''" "PyStr ''float''" "PyInt 48" "PyStr ''big''"]
  have 4: "PacketField_init (PyStr ''OPMODE'') (PyStr ''float'') (PyInt (- 3)) (PyInt 48) (PyStr ''big'') =
     Inr \<lparr>p_name = PyStr ''OPMODE'', p_data_type = PyStr ''float'', p_bit_length = PyInt (- 3),
          p_bit_offset = PyInt 48, p_byte_order = PyStr ''big''\<rparr>"
    by blast
  from 1 3 4 show ?thesis by blast
qed

text \<open>
  C8, as stated: a construction with a negative \<^verbatim>\<open>bit_offset\<close> would not return. The
  constructor checks only that \<^verbatim>\<open>bit_offset\<close> is \<^verbatim>\<open>None\<close> or an integer; this
  construction returns a field whose offset is \<open>-5\<close>.
\<close>

theorem PacketField_init_negative_offset_counterexample:
  "PacketField_init (PyStr ''SHFINE'') (PyStr ''uint'') (PyInt 20) (PyInt (- 5)) (PyStr ''big'') =
     Inr \<lparr>p_name = PyStr ''SHFINE'', p_data_type = PyStr ''uint'', p_bit_length = PyInt 20,
          p_bit_offset = PyInt (- 5), p_byte_order = PyStr ''big''\<rparr>"
  by (simp add: PacketField_init_def valid_data_types_def valid_byte_orders_def)

text \<open>
  C8, amended: the \<^verbatim>\<open>_bit_offset\<close> of a constructed \<^verbatim>\<open>PacketField\<close> is the argument it
  was given, and that is \<^verbatim>\<open>None\<close> or an integer, of either sign; a construction
  supplying a \<^verbatim>\<open>bit_offset\<close> that is neither \<^verbatim>\<open>None\<close> nor an integer does not return.
\<close>

theorem PacketField_init_bit_offset_none_or_int:
  "(\<forall>f. PacketField_init n d l off b = Inr f \<longrightarrow>
      p_bit_offset f = off \<and> (off = PyNone \<or> isinstance_int off)) \<and>
   (off \<noteq> PyNone \<and> \<not> isinstance_int off \<longrightarrow> (\<exists>e. PacketField_init n d l off b = Inl e))"
proof -
  have ok: "PacketField_init n d l off b = Inr f \<Longrightarrow>
      p_bit_offset f = off \<and> (off = PyNone \<or> isinstance_int off)" for f
    by (simp add: PacketField_init_Inr_iff)
  have "off \<noteq> PyNone \<and> \<not> isinstance_int off \<Longrightarrow> \<exists>e. PacketField_init n d l off b = Inl e"
    using ok by (cases "PacketField_init n d l off b") auto
  with ok show ?thesis by blast
qed

theorem PacketField_init_bit_offset_none_or_int_witness:
  "PacketField_init (PyStr ''SHFINE'') (PyStr ''uint'') (PyInt 20) (PyInt 32) (PyStr ''big'') =
     Inr \<lparr>p_name = PyStr ''SHFINE'', p_data_type = PyStr ''uint'', p_bit_length = PyInt 20,
          p_bit_offset = PyInt 32, p_byte_order = PyStr ''big''\<rparr> \<and>
   isinstance_int (PyInt 32) \<and>
   PyStr ''32'' \<noteq> PyNone \<and> \<not> isinstance_int (PyStr ''32'') \<and>
   (\<exists>e. PacketField_init (PyStr ''SHFINE'') (PyStr ''uint'') (PyInt 20) (PyStr ''32'') (PyStr ''big'') = Inl e)"
proof -
  have 1: "PacketField_init (PyStr ''SHFINE'') (PyStr ''uint'') (PyInt 20) (PyInt 32) (PyStr ''big'') =
     Inr \<lparr>p_name = PyStr ''SHFINE'', p_data_type = PyStr ''uint'', p_bit_length = PyInt 20,
          p_bit_offset = PyInt 32, p_byte_order = PyStr ''big''\<rparr>"
    by (simp add: PacketField_init_def valid_data_types_def valid_byte_orders_def)
  from 1 PacketField_init_bit_offset_none_or_int
      [of "PyStr ''SHFINE''" "PyStr ''uint''" "PyInt 20" "PyInt 32" "PyStr ''big''"]
  have 2: "isinstance_int (PyInt 32)" by blast
  have 3: "PyStr ''32'' \<noteq> PyNone \<and> \<not> isinstance_int (PyStr ''32'')" by simp
  from 3 PacketField_init_bit_offset_none_or_int
      [of "PyStr ''SHFINE''" "PyStr ''uint''" "PyInt 20" "PyStr ''32''" "PyStr ''big''"]
  have 4: "\<exists>e. PacketField_init (PyStr ''SHFINE'') (PyStr ''uint'') (PyInt 20) (PyStr ''32'') (PyStr ''big'') = Inl e"
    by blast
  from 1 2 3 4 show ?thesis by blast
qed

section \<open>Heap and load\<close>

lemma primary_header_eq:
  "primary_header = Inr
     [\<lparr>p_name = PyStr ''CCSDS_VERSION_NUMBER'', p_data_type = PyStr ''uint'', p_bit_length = PyInt 3, p_bit_offset = PyInt 0, p_byte_order = PyStr ''big''\<rparr>,
      \<lparr>p_name = PyStr ''CCSDS_PACKET_TYPE'', p_data_type = PyStr ''uint'', p_bit_length = PyInt 1, p_bit_offset = PyInt 3, p_byte_order = PyStr ''big''\<rparr>,
      \<lparr>p_name = PyStr ''CCSDS_SECONDARY_FLAG'', p_data_type = PyStr ''uint'', p_bit_length = PyInt 1, p_bit_offset = PyInt 4, p_byte_order = PyStr ''big''\<rparr>,
      \<lparr>p_name = PyStr ''CCSDS_APID'', p_data_type = PyStr ''uint'', p_bit_length = PyInt 11, p_bit_offset = PyInt 5, p_byte_order = PyStr ''big''\<rparr>,
      \<lparr>p_name = PyStr ''CCSDS_SEQUENCE_FLAG'', p_data_type = PyStr ''uint'', p_bit_length = PyInt 2, p_bit_offset = PyInt 16, p_byte_order = PyStr ''big''\<rparr>,
      \<lparr>p_name = PyStr ''CCSDS_SEQUENCE_COUNT'', p_data_type = PyStr ''uint'', p_bit_length = PyInt 14, p_bit_offset = PyInt 18, p_byte_order = PyStr ''big''\<rparr>,
      \<lparr>p_name = PyStr ''CCSDS_PACKET_LENGTH'', p_data_type = PyStr ''uint'', p_bit_length = PyInt 16, p_bit_offset = PyInt 32, p_byte_order = PyStr ''big''\<rparr>]"
  by (simp add: primary_header_def PacketField_init_def valid_data_types_def valid_byte_orders_def bind_err_def)

lemma mutate_other: "a \<noteq> c \<Longrightarrow> deref (fst (mutate h a opn)) c = deref h c"
  by (simp add: mutate_def deref_def heap_store_def split: sum.splits)

lemma mutate_next: "next_addr (fst (mutate h a opn)) = next_addr h"
  by (simp add: mutate_def heap_store_def split: sum.splits)

lemma mutate_all_other: "a \<noteq> c \<Longrightarrow> deref (mutate_all h a ops) c = deref h c"
  by (induction ops arbitrary: h) (simp_all add: mutate_other)

lemma mutate_all_next: "next_addr (mutate_all h a ops) = next_addr h"
  by (induction ops arbitrary: h) (simp_all add: mutate_next)

lemma load_result_cong:
  "deref h (fl_fields self) = deref k (fl_fields self) \<Longrightarrow>
   snd (snd (load decode disk h self file inc)) = snd (snd (load decode disk k self file inc))"
  by (simp add: load_def primary_header_eq alloc_def deref_def split: sum.splits)

lemma load_keeps_live_lists:
  "a < next_addr h \<Longrightarrow> deref (fst (load decode disk h self file inc)) a = deref h a"
  by (simp add: load_def primary_header_eq alloc_def deref_def split: sum.splits)

lemma load_with_header:
  assumes "read_file_bytes disk file = Inr bs"
      and "primary_header = Inr header"
  shows "load decode disk h self file True =
           (fst (alloc h (header @ deref h (fl_fields self))),
            self\<lparr>fl_fields := next_addr h\<rparr>,
            decode bs (header @ deref h (fl_fields self)))"
  using assms(2) unfolding load_def assms(1) primary_header_eq
  by (auto simp add: alloc_def deref_def)

lemma FixedLength_init_facts:
  assumes "FixedLength_init h r = (h1, self)"
  shows "fl_fields self = next_addr h" "next_addr h1 = Suc (next_addr h)"
    "cells h1 a = (if a = next_addr h then cells h r else cells h a)"
  using assms by (auto simp: FixedLength_init_def alloc_def deref_def)


text \<open>
  With \<^verbatim>\<open>include_primary_header\<close> true and a file that can be read, \<^verbatim>\<open>load\<close> puts
  seven fields in front of the list the instance holds at the call and runs the
  decoder on the result: unsigned integers of 3, 1, 1, 11, 2, 14 and 16 bits at the
  explicit bit offsets 0, 3, 4, 5, 16, 18 and 32. For an instance as its constructor
  leaves it, that list is the user's.
\<close>

lemma load_layout_with_header:
  assumes "read_file_bytes disk file = Inr file_bytes"
  shows "let (h', self', r) = load decode disk h self file True;
             layout = deref h' (fl_fields self')
         in map p_name (take 7 layout) =
              [PyStr ''CCSDS_VERSION_NUMBER'', PyStr ''CCSDS_PACKET_TYPE'',
               PyStr ''CCSDS_SECONDARY_FLAG'', PyStr ''CCSDS_APID'', PyStr ''CCSDS_SEQUENCE_FLAG'',
               PyStr ''CCSDS_SEQUENCE_COUNT'', PyStr ''CCSDS_PACKET_LENGTH''] \<and>
            map p_data_type (take 7 layout) = replicate 7 (PyStr ''uint'') \<and>
            map p_bit_length (take 7 layout) = map PyInt [3, 1, 1, 11, 2, 14, 16] \<and>
            map p_bit_offset (take 7 layout) = map PyInt [0, 3, 4, 5, 16, 18, 32] \<and>
            map p_byte_order (take 7 layout) = replicate 7 (PyStr ''big'') \<and>
            drop 7 layout = deref h (fl_fields self) \<and>
            length layout = 7 + length (deref h (fl_fields self)) \<and>
            r = decode file_bytes layout \<and>
            (\<forall>h0 fields_ref. FixedLength_init h0 fields_ref = (h, self) \<longrightarrow>
               drop 7 layout = deref h0 fields_ref)"
proof -
  have fresh: "deref h (fl_fields self) = deref h0 fields_ref"
    if "FixedLength_init h0 fields_ref = (h, self)" for h0 fields_ref
    using FixedLength_init_facts [OF that] by (simp add: deref_def)
  then have fresh': "\<forall>h0 fields_ref. FixedLength_init h0 fields_ref = (h, self) \<longrightarrow>
      cells h (fl_fields self) = cells h0 fields_ref"
    by (simp add: deref_def)
  show ?thesis
    unfolding load_with_header [OF assms primary_header_eq]
    using fresh' by (simp add: alloc_def deref_def numeral_eq_Suc)
qed

text \<open>
  C1 says that for every instance \<^verbatim>\<open>load\<close> with \<^verbatim>\<open>include_primary_header\<close> decodes
  exactly seven header fields ahead of the user's fields. The seven fields go in front
  of \<^verbatim>\<open>self._fields\<close>, which the previous such call has already extended: on an
  instance built from one field, the second call decodes fourteen header fields ahead
  of the user's field, whatever the decoder.
\<close>

theorem load_second_call_doubles_primary_header:
  "(let (h1, inst1) = FixedLength_init caller_heap 0;
        (h2, inst2, r2) = load decode Map.empty h1 inst1 (FileObj example_packet) True;
        (h3, inst3, r3) = load decode Map.empty h2 inst2 (FileObj example_packet) True;
        layout = deref h3 (fl_fields inst3)
    in deref h1 (fl_fields inst1) = [example_field] \<and>
       length layout = 15 \<and>
       map p_bit_offset (take 14 layout) =
         map PyInt [0, 3, 4, 5, 16, 18, 32, 0, 3, 4, 5, 16, 18, 32] \<and>
       map p_bit_length (take 14 layout) =
         map PyInt [3, 1, 1, 11, 2, 14, 16, 3, 1, 1, 11, 2, 14, 16] \<and>
       drop 14 layout = [example_field] \<and>
       drop 7 layout \<noteq> [example_field] \<and>
       r3 = decode example_packet layout)"
  by (simp add: load_def primary_header_eq read_file_bytes_def
      FixedLength_init_def caller_heap_def alloc_def empty_heap_def deref_def example_field_def)

text \<open>
  C7. Construction copies the caller's list: it leaves the caller's list as it is and
  gives the instance a list object of its own, so whatever the caller then does to
  its list (appending, replacing or deleting elements), the instance keeps the fields
  it was constructed with and \<^verbatim>\<open>load\<close> returns what it would have returned without
  these operations; \<^verbatim>\<open>load\<close> does not change the caller's list either.
\<close>

theorem FixedLength_fields_isolated_from_caller_list:
  assumes live: "fields_ref < next_addr h"
      and init: "FixedLength_init h fields_ref = (h1, self)"
  shows "deref h1 fields_ref = deref h fields_ref \<and>
         fl_fields self \<noteq> fields_ref \<and>
         deref h1 (fl_fields self) = deref h fields_ref \<and>
         deref (mutate_all h1 fields_ref ops) (fl_fields self) = deref h fields_ref \<and>
         snd (snd (load decode disk (mutate_all h1 fields_ref ops) self file inc)) =
           snd (snd (load decode disk h1 self file inc)) \<and>
         deref (fst (load decode disk (mutate_all h1 fields_ref ops) self file inc)) fields_ref =
           deref (mutate_all h1 fields_ref ops) fields_ref"
proof -
  note f = FixedLength_init_facts [OF init]
  have ne: "fields_ref \<noteq> fl_fields self"
    using live f(1) by simp
  have 1: "deref h1 fields_ref = deref h fields_ref"
    using live by (simp add: deref_def f(3))
  have 3: "deref h1 (fl_fields self) = deref h fields_ref"
    by (simp add: deref_def f(1) f(3))
  have 4: "deref (mutate_all h1 fields_ref ops) (fl_fields self) = deref h fields_ref"
    using mutate_all_other [OF ne] 3 by simp
  have 5: "snd (snd (load decode disk (mutate_all h1 fields_ref ops) self file inc)) =
           snd (snd (load decode disk h1 self file inc))"
    by (rule load_result_cong) (simp add: 3 4)
  have "fields_ref < next_addr (mutate_all h1 fields_ref ops)"
    using live by (simp add: mutate_all_next f(2))
  then have 6: "deref (fst (load decode disk (mutate_all h1 fields_ref ops) self file inc)) fields_ref =
           deref (mutate_all h1 fields_ref ops) fields_ref"
    by (rule load_keeps_live_lists)
  from 1 ne 3 4 5 6 show ?thesis by auto
qed


theorem FixedLength_fields_isolated_from_caller_list_witness:
  "0 < next_addr caller_heap \<and>
   deref (mutate_all (fst (FixedLength_init caller_heap 0)) 0
            [Append other_field, SetItem 0 other_field, DelItem 5, DelItem (- 1)]) 0 = [other_field] \<and>
   deref (mutate_all (fst (FixedLength_init caller_heap 0)) 0
            [Append other_field, SetItem 0 other_field, DelItem 5, DelItem (- 1)])
         (fl_fields (snd (FixedLength_init caller_heap 0))) = [example_field] \<and>
   snd (snd (load names_decoder Map.empty
               (mutate_all (fst (FixedLength_init caller_heap 0)) 0
                  [Append other_field, SetItem 0 other_field, DelItem 5, DelItem (- 1)])
               (snd (FixedLength_init caller_heap 0)) (FileObj example_packet) False)) =
     Inr [PyStr ''VOLTAGE'']"
proof -
  have live: "0 < next_addr caller_heap"
    by (simp add: caller_heap_def alloc_def)
  have init: "FixedLength_init caller_heap 0 =
      (fst (FixedLength_init caller_heap 0), snd (FixedLength_init caller_heap 0))"
    by simp
  have orig: "deref caller_heap 0 = [example_field]"
    by (simp add: caller_heap_def alloc_def empty_heap_def deref_def)
  have mutated: "deref (mutate_all (fst (FixedLength_init caller_heap 0)) 0
            [Append other_field, SetItem 0 other_field, DelItem 5, DelItem (- 1)]) 0 = [other_field]"
    by (simp add: FixedLength_init_def caller_heap_def alloc_def empty_heap_def deref_def
        mutate_def heap_store_def py_index_def)
  have unmutated: "snd (snd (load names_decoder Map.empty (fst (FixedLength_init caller_heap 0))
               (snd (FixedLength_init caller_heap 0)) (FileObj example_packet) False)) =
     Inr [PyStr ''VOLTAGE'']"
    by (simp add: load_def read_file_bytes_def names_decoder_def FixedLength_init_def
        caller_heap_def alloc_def empty_heap_def deref_def example_field_def)
  show ?thesis
    using live mutated
      FixedLength_fields_isolated_from_caller_list [OF live init,
        of "[Append other_field, SetItem 0 other_field, DelItem 5, DelItem (- 1)]"
           names_decoder Map.empty "FileObj example_packet" False]
    unfolding orig unmutated
    by simp
qed

text \<open>
  C2 says that \<^verbatim>\<open>load\<close> leaves the instance's field list unchanged and that two
  successive calls with the same arguments return the same result. The code assigns
  the extended list to \<^verbatim>\<open>self._fields\<close>: on an instance built from one field, the
  first call with \<^verbatim>\<open>include_primary_header\<close> leaves eight fields in the instance,
  the second call decodes fifteen, and a call without \<^verbatim>\<open>include_primary_header\<close>
  after the first still decodes the header.
\<close>

theorem load_twice_stacks_primary_header:
  "(let (h1, inst1) = FixedLength_init caller_heap 0;
        (h2, inst2, r2) = load names_decoder Map.empty h1 inst1 (FileObj example_packet) True;
        (h3, inst3, r3) = load names_decoder Map.empty h2 inst2 (FileObj example_packet) True;
        (h4, inst4, r4) = load names_decoder Map.empty h2 inst2 (FileObj example_packet) False
    in deref h1 (fl_fields inst1) = [example_field] \<and>
       length (deref h2 (fl_fields inst2)) = 8 \<and>
       length (deref h3 (fl_fields inst3)) = 15 \<and>
       r2 = Inr [PyStr ''CCSDS_VERSION_NUMBER'', PyStr ''CCSDS_PACKET_TYPE'',
                 PyStr ''CCSDS_SECONDARY_FLAG'', PyStr ''CCSDS_APID'', PyStr ''CCSDS_SEQUENCE_FLAG'',
                 PyStr ''CCSDS_SEQUENCE_COUNT'', PyStr ''CCSDS_PACKET_LENGTH'', PyStr ''VOLTAGE''] \<and>
       r3 = Inr [PyStr ''CCSDS_VERSION_NUMBER'', PyStr ''CCSDS_PACKET_TYPE'',
                 PyStr ''CCSDS_SECONDARY_FLAG'', PyStr ''CCSDS_APID'', PyStr ''CCSDS_SEQUENCE_FLAG'',
                 PyStr ''CCSDS_SEQUENCE_COUNT'', PyStr ''CCSDS_PACKET_LENGTH'',
                 PyStr ''CCSDS_VERSION_NUMBER'', PyStr ''CCSDS_PACKET_TYPE'',
                 PyStr ''CCSDS_SECONDARY_FLAG'', PyStr ''CCSDS_APID'', PyStr ''CCSDS_SEQUENCE_FLAG'',
                 PyStr ''CCSDS_SEQUENCE_COUNT'', PyStr ''CCSDS_PACKET_LENGTH'', PyStr ''VOLTAGE''] \<and>
       r4 = r2 \<and> r3 \<noteq> r2)"
  by (simp add: load_def primary_header_eq read_file_bytes_def names_decoder_def
      FixedLength_init_def caller_heap_def alloc_def empty_heap_def deref_def example_field_def)

section \<open>The layout loader\<close>

lemma csv_loop_body_Inr:
  assumes "csv_loop_body parse headers row flds = Inr out"
  shows "\<exists>f. out = flds @ [f] \<and>
     (\<exists>nm. row ''name'' = Some (Some nm) \<and> p_name f = PyStr nm) \<and>
     (\<exists>dt. row ''data_type'' = Some (Some dt) \<and> p_data_type f = PyStr dt) \<and>
     (\<exists>s i. row ''bit_length'' = Some (Some s) \<and> parse s = Some i \<and> p_bit_length f = PyInt i) \<and>
     (if ''bit_offset'' \<in> set headers
      then \<exists>s i. row ''bit_offset'' = Some (Some s) \<and> parse s = Some i \<and> p_bit_offset f = PyInt i
      else p_bit_offset f = PyNone)"
  using assms
  unfolding csv_loop_body_def bind_err_def dict_getitem_def py_int_def cell_val_def
  by (auto simp: PacketField_init_Inr_iff split: sum.splits option.splits if_splits)


lemma bind_err_Inr: "bind_err m k = Inr v \<longleftrightarrow> (\<exists>x. m = Inr x \<and> k x = Inr v)"
  by (cases m) (simp_all add: bind_err_def)

lemma PacketField_init_of_row:
  "PacketField_init (PyStr nm) (PyStr dt) (PyInt i) PyNone (PyStr ''big'') =
     (if PyStr dt \<in> set valid_data_types
      then Inr \<lparr>p_name = PyStr nm, p_data_type = PyStr dt, p_bit_length = PyInt i,
                p_bit_offset = PyNone, p_byte_order = PyStr ''big''\<rparr>
      else Inl (ValueError ''data_type must be one of ('uint', 'int', 'float', 'str', 'fill')''))"
  "PacketField_init (PyStr nm) (PyStr dt) (PyInt i) (PyInt j) (PyStr ''big'') =
     (if PyStr dt \<in> set valid_data_types
      then Inr \<lparr>p_name = PyStr nm, p_data_type = PyStr dt, p_bit_length = PyInt i,
                p_bit_offset = PyInt j, p_byte_order = PyStr ''big''\<rparr>
      else Inl (ValueError ''data_type must be one of ('uint', 'int', 'float', 'str', 'fill')''))"
  by (simp_all add: PacketField_init_def valid_byte_orders_def)

lemma csv_loop_body_Inr_iff:
  "csv_loop_body parse headers row flds = Inr out \<longleftrightarrow>
   (\<exists>f. out = flds @ [f] \<and>
     (\<exists>nm dt s i.
        row ''name'' = Some (Some nm) \<and>
        row ''data_type'' = Some (Some dt) \<and> PyStr dt \<in> set valid_data_types \<and>
        row ''bit_length'' = Some (Some s) \<and> parse s = Some i \<and>
        (if ''bit_offset'' \<in> set headers
         then \<exists>t j. row ''bit_offset'' = Some (Some t) \<and> parse t = Some j \<and>
                f = \<lparr>p_name = PyStr nm, p_data_type = PyStr dt, p_bit_length = PyInt i,
                     p_bit_offset = PyInt j, p_byte_order = PyStr ''big''\<rparr>
         else f = \<lparr>p_name = PyStr nm, p_data_type = PyStr dt, p_bit_length = PyInt i,
                   p_bit_offset = PyNone, p_byte_order = PyStr ''big''\<rparr>)))"
proof (cases "''bit_offset'' \<in> set headers")
  case True
  then show ?thesis
    unfolding csv_loop_body_def bind_err_def dict_getitem_def py_int_def cell_val_def
    by (auto simp: PacketField_init_Inr_iff PacketField_init_of_row
        split: sum.splits option.splits if_splits)
next
  case False
  then show ?thesis
    unfolding csv_loop_body_def bind_err_def dict_getitem_def py_int_def cell_val_def
    by (auto simp: PacketField_init_Inr_iff PacketField_init_of_row
        split: sum.splits option.splits if_splits)
qed

lemma csv_loop_Inr_iff:
  assumes step: "\<And>row flds out. csv_loop_body parse headers row flds = Inr out \<longleftrightarrow>
                   (\<exists>f. out = flds @ [f] \<and> P row f)"
  shows "csv_loop parse headers rows flds = Inr out \<longleftrightarrow>
           (\<exists>fs. out = flds @ fs \<and> list_all2 P rows fs)"
proof (induction rows arbitrary: flds)
  case Nil
  show ?case by auto
next
  case (Cons row rows)
  show ?case
  proof
    assume "csv_loop parse headers (row # rows) flds = Inr out"
    then obtain mid where
      body: "csv_loop_body parse headers row flds = Inr mid" and
      rest: "csv_loop parse headers rows mid = Inr out"
      by (auto simp: bind_err_Inr)
    from body step obtain f where mid: "mid = flds @ [f]" and f: "P row f"
      by blast
    from rest Cons.IH obtain fs where out: "out = mid @ fs" and fs: "list_all2 P rows fs"
      by blast
    have "out = flds @ (f # fs)" using mid out by simp
    moreover have "list_all2 P (row # rows) (f # fs)" using f fs by simp
    ultimately show "\<exists>fs. out = flds @ fs \<and> list_all2 P (row # rows) fs" by blast
  next
    assume "\<exists>fs. out = flds @ fs \<and> list_all2 P (row # rows) fs"
    then obtain fs where out: "out = flds @ fs" and all: "list_all2 P (row # rows) fs"
      by blast
    from all obtain f fs' where fs: "fs = f # fs'" and f: "P row f" and
      rest: "list_all2 P rows fs'"
      by (auto simp: list_all2_Cons1)
    from f step have body: "csv_loop_body parse headers row flds = Inr (flds @ [f])"
      by blast
    have "csv_loop parse headers rows (flds @ [f]) = Inr out"
      using Cons.IH [of "flds @ [f]"] rest out fs by auto
    with body show "csv_loop parse headers (row # rows) flds = Inr out"
      by (simp add: bind_err_def)
  qed
qed

lemma csv_loop_appends:
  assumes step: "\<And>row flds mid. csv_loop_body parse headers row flds = Inr mid \<Longrightarrow>
                   \<exists>f. mid = flds @ [f] \<and> P row f"
      and run: "csv_loop parse headers rows flds = Inr out"
  shows "\<exists>fs. out = flds @ fs \<and> list_all2 P rows fs"
  using run
proof (induction rows arbitrary: flds)
  case Nil
  then show ?case by simp
next
  case (Cons row rows)
  from Cons.prems obtain mid where
    body: "csv_loop_body parse headers row flds = Inr mid" and
    rest: "csv_loop parse headers rows mid = Inr out"
    by (auto simp: bind_err_Inr)
  from step [OF body] obtain f where mid: "mid = flds @ [f]" and f: "P row f"
    by blast
  from Cons.IH [OF rest] obtain fs where out: "out = mid @ fs" and fs: "list_all2 P rows fs"
    by blast
  have "out = flds @ (f # fs)" using mid out by simp
  moreover have "list_all2 P (row # rows) (f # fs)" using f fs by simp
  ultimately show ?case by blast
qed

lemma get_fields_csv_file_Inr:
  assumes "fs path = Some (headers # rows)"
      and "get_fields_csv_file parse fs path = Inr flds"
  shows "csv_loop parse headers (DictReader_rows headers rows) [] = Inr flds"
  using assms
  by (simp add: get_fields_csv_file_def DictReader_fieldnames_def split: if_splits)

lemma get_fields_csv_file_no_rows:
  "fs path = Some [] \<Longrightarrow>
   get_fields_csv_file parse fs path = Inl (TypeError ''argument of type 'NoneType' is not iterable'')"
  by (simp add: get_fields_csv_file_def DictReader_fieldnames_def)

lemma splitext_joins: "fst (os_path_splitext p) @ snd (os_path_splitext p) = p"
  by (simp add: os_path_splitext_def splitext_generic_def Let_def)


text \<open>
  C5. For a CSV file the loader accepts, the returned fields have explicit bit offsets
  all or none: if the header row has a \<^verbatim>\<open>bit_offset\<close> column, the fields correspond
  one to one, in order, to the rows \<^verbatim>\<open>DictReader\<close> yields, and each carries the
  integer read from the \<^verbatim>\<open>bit_offset\<close> value of its row; if it has none, every
  returned field has the offset \<^verbatim>\<open>None\<close>.
\<close>

theorem csv_offsets_all_or_none:
  assumes content: "fs path = Some (headers # rows)"
      and ok: "get_fields_csv_file parse fs path = Inr flds"
  shows "(''bit_offset'' \<in> set headers \<longrightarrow>
            list_all2 (\<lambda>row f. \<exists>s i. row ''bit_offset'' = Some (Some s) \<and> parse s = Some i \<and>
                                  p_bit_offset f = PyInt i)
              (DictReader_rows headers rows) flds) \<and>
         (''bit_offset'' \<notin> set headers \<longrightarrow>
            length flds = length (DictReader_rows headers rows) \<and>
            (\<forall>f \<in> set flds. p_bit_offset f = PyNone))"
proof -
  note run = get_fields_csv_file_Inr [OF content ok]
  show ?thesis
  proof (cases "''bit_offset'' \<in> set headers")
    case True
    have "\<exists>f. mid = acc @ [f] \<and>
            (\<exists>s i. row ''bit_offset'' = Some (Some s) \<and> parse s = Some i \<and> p_bit_offset f = PyInt i)"
      if "csv_loop_body parse headers row acc = Inr mid" for row acc mid
      using csv_loop_body_Inr [OF that] True by auto
    from csv_loop_appends [OF this run] True show ?thesis by simp
  next
    case False
    have "\<exists>f. mid = acc @ [f] \<and> p_bit_offset f = PyNone"
      if "csv_loop_body parse headers row acc = Inr mid" for row acc mid
      using csv_loop_body_Inr [OF that] False by auto
    from csv_loop_appends [OF this run]
    have all: "list_all2 (\<lambda>row f. p_bit_offset f = PyNone) (DictReader_rows headers rows) flds"
      by simp
    then have "\<forall>f \<in> set flds. p_bit_offset f = PyNone"
      by (auto simp: list_all2_conv_all_nth in_set_conv_nth)
    with all False show ?thesis by (simp add: list_all2_lengthD)
  qed
qed

text \<open>
  C6. For a CSV file whose header row lacks one of the columns \<^verbatim>\<open>name\<close>,
  \<^verbatim>\<open>data_type\<close>, \<^verbatim>\<open>bit_length\<close>, the loader raises \<^verbatim>\<open>ValueError\<close> whatever the
  rows are, so before any field is constructed. With all three columns the file is
  read row by row: the loader returns a list of fields exactly when that list
  corresponds one to one, in row order, to the rows \<^verbatim>\<open>DictReader\<close> yields, each row
  having a name, one of the five data types, a bit length \<^verbatim>\<open>int\<close> can read (and a
  bit offset \<^verbatim>\<open>int\<close> can read when the header has that column), and each field being
  the \<^verbatim>\<open>PacketField\<close> with these values and the byte order \<^verbatim>\<open>big\<close>.
\<close>

theorem csv_required_columns:
  assumes content: "fs path = Some (headers # rows)"
  shows "(\<not> {''name'', ''data_type'', ''bit_length''} \<subseteq> set headers \<longrightarrow>
            get_fields_csv_file parse fs path =
              Inl (ValueError ''Minimum required columns are ['name', 'data_type', 'bit_length'].'')) \<and>
         ({''name'', ''data_type'', ''bit_length''} \<subseteq> set headers \<longrightarrow>
            (\<forall>flds. get_fields_csv_file parse fs path = Inr flds \<longleftrightarrow>
               list_all2 (\<lambda>row f. \<exists>nm dt s i.
                   row ''name'' = Some (Some nm) \<and>
                   row ''data_type'' = Some (Some dt) \<and> PyStr dt \<in> set valid_data_types \<and>
                   row ''bit_length'' = Some (Some s) \<and> parse s = Some i \<and>
                   (if ''bit_offset'' \<in> set headers
                    then \<exists>t j. row ''bit_offset'' = Some (Some t) \<and> parse t = Some j \<and>
                           f = \<lparr>p_name = PyStr nm, p_data_type = PyStr dt, p_bit_length = PyInt i,
                                p_bit_offset = PyInt j, p_byte_order = PyStr ''big''\<rparr>
                    else f = \<lparr>p_name = PyStr nm, p_data_type = PyStr dt, p_bit_length = PyInt i,
                              p_bit_offset = PyNone, p_byte_order = PyStr ''big''\<rparr>))
                 (DictReader_rows headers rows) flds))"
proof (intro conjI impI allI)
  assume "\<not> {''name'', ''data_type'', ''bit_length''} \<subseteq> set headers"
  then show "get_fields_csv_file parse fs path =
      Inl (ValueError ''Minimum required columns are ['name', 'data_type', 'bit_length'].'')"
    using content by (auto simp: get_fields_csv_file_def DictReader_fieldnames_def req_columns_def)
next
  fix flds
  assume "{''name'', ''data_type'', ''bit_length''} \<subseteq> set headers"
  then have "get_fields_csv_file parse fs path =
      csv_loop parse headers (DictReader_rows headers rows) []"
    using content by (simp add: get_fields_csv_file_def DictReader_fieldnames_def req_columns_def)
  then show "get_fields_csv_file parse fs path = Inr flds \<longleftrightarrow>
      list_all2 (\<lambda>row f. \<exists>nm dt s i.
                   row ''name'' = Some (Some nm) \<and>
                   row ''data_type'' = Some (Some dt) \<and> PyStr dt \<in> set valid_data_types \<and>
                   row ''bit_length'' = Some (Some s) \<and> parse s = Some i \<and>
                   (if ''bit_offset'' \<in> set headers
                    then \<exists>t j. row ''bit_offset'' = Some (Some t) \<and> parse t = Some j \<and>
                           f = \<lparr>p_name = PyStr nm, p_data_type = PyStr dt, p_bit_length = PyInt i,
                                p_bit_offset = PyInt j, p_byte_order = PyStr ''big''\<rparr>
                    else f = \<lparr>p_name = PyStr nm, p_data_type = PyStr dt, p_bit_length = PyInt i,
                              p_bit_offset = PyNone, p_byte_order = PyStr ''big''\<rparr>))
        (DictReader_rows headers rows) flds"
    using csv_loop_Inr_iff [OF csv_loop_body_Inr_iff, of parse headers "DictReader_rows headers rows" "[]" flds]
    by simp
qed

text \<open>
  C9. \<^verbatim>\<open>FixedLength.from_file\<close> raises \<^verbatim>\<open>ValueError\<close> for every path whose extension,
  as \<^verbatim>\<open>os.path.splitext\<close> gives it, is not \<^verbatim>\<open>.csv\<close>: the heap is as before and no
  instance is returned. A path handed to the CSV loader ends in \<^verbatim>\<open>.csv\<close>, and the
  outcome is then the loader's: its exception, or an instance holding the fields it
  returned.
\<close>

theorem from_file_requires_csv_extension:
  "(snd (os_path_splitext file) \<noteq> ''.csv'' \<longrightarrow>
      FixedLength_from_file parse fs h file =
        (h, Inl (ValueError (''File type '' @ snd (os_path_splitext file) @ '' not supported.'')))) \<and>
   (snd (os_path_splitext file) = ''.csv'' \<longrightarrow>
      file = fst (os_path_splitext file) @ ''.csv'' \<and>
      (case get_fields_csv_file parse fs file of
         Inl e \<Rightarrow> FixedLength_from_file parse fs h file = (h, Inl e)
       | Inr flds \<Rightarrow>
           \<exists>h' inst. FixedLength_from_file parse fs h file = (h', Inr inst) \<and>
                     deref h' (fl_fields inst) = flds))"
proof (intro conjI impI)
  assume "snd (os_path_splitext file) \<noteq> ''.csv''"
  then show "FixedLength_from_file parse fs h file =
        (h, Inl (ValueError (''File type '' @ snd (os_path_splitext file) @ '' not supported.'')))"
    by (simp add: FixedLength_from_file_def Let_def)
next
  assume ext: "snd (os_path_splitext file) = ''.csv''"
  show "file = fst (os_path_splitext file) @ ''.csv''"
    using splitext_joins [of "file"] unfolding ext by simp
  show "case get_fields_csv_file parse fs file of
         Inl e \<Rightarrow> FixedLength_from_file parse fs h file = (h, Inl e)
       | Inr flds \<Rightarrow>
           \<exists>h' inst. FixedLength_from_file parse fs h file = (h', Inr inst) \<and>
                     deref h' (fl_fields inst) = flds"
    using ext
    by (simp add: FixedLength_from_file_def Let_def FixedLength_init_def alloc_def deref_def
        split: sum.splits)
qed


lemma load_4col:
  "get_fields_csv_file parse_decimal example_fs ''simple_csv_4col.csv'' =
     Inr [\<lparr>p_name = PyStr ''SHCOARSE'', p_data_type = PyStr ''uint'', p_bit_length = PyInt 32,
           p_bit_offset = PyInt 48, p_byte_order = PyStr ''big''\<rparr>,
          \<lparr>p_name = PyStr ''VOLTAGE'', p_data_type = PyStr ''int'', p_bit_length = PyInt 8,
           p_bit_offset = PyInt 80, p_byte_order = PyStr ''big''\<rparr>]"
  by code_simp

lemma load_3col:
  "get_fields_csv_file parse_decimal example_fs ''simple_csv_3col.csv'' =
     Inr [\<lparr>p_name = PyStr ''SHCOARSE'', p_data_type = PyStr ''uint'', p_bit_length = PyInt 32,
           p_bit_offset = PyNone, p_byte_order = PyStr ''big''\<rparr>,
          \<lparr>p_name = PyStr ''VOLTAGE'', p_data_type = PyStr ''int'', p_bit_length = PyInt 8,
           p_bit_offset = PyNone, p_byte_order = PyStr ''big''\<rparr>]"
  by code_simp

lemma splitext_examples:
  "os_path_splitext ''layout.txt'' = (''layout'', ''.txt'')"
  "os_path_splitext ''simple_csv_3col.csv'' = (''simple_csv_3col'', ''.csv'')"
  "os_path_splitext ''.csv'' = (''.csv'', [])"
  by code_simp+


theorem csv_offsets_all_or_none_witness:
  "get_fields_csv_file parse_decimal example_fs ''simple_csv_4col.csv'' =
     Inr [\<lparr>p_name = PyStr ''SHCOARSE'', p_data_type = PyStr ''uint'', p_bit_length = PyInt 32,
           p_bit_offset = PyInt 48, p_byte_order = PyStr ''big''\<rparr>,
          \<lparr>p_name = PyStr ''VOLTAGE'', p_data_type = PyStr ''int'', p_bit_length = PyInt 8,
           p_bit_offset = PyInt 80, p_byte_order = PyStr ''big''\<rparr>] \<and>
   list_all2 (\<lambda>row f. \<exists>s i. row ''bit_offset'' = Some (Some s) \<and> parse_decimal s = Some i \<and>
                         p_bit_offset f = PyInt i)
     (DictReader_rows (hd simple_csv_4col) (tl simple_csv_4col))
     [\<lparr>p_name = PyStr ''SHCOARSE'', p_data_type = PyStr ''uint'', p_bit_length = PyInt 32,
       p_bit_offset = PyInt 48, p_byte_order = PyStr ''big''\<rparr>,
      \<lparr>p_name = PyStr ''VOLTAGE'', p_data_type = PyStr ''int'', p_bit_length = PyInt 8,
       p_bit_offset = PyInt 80, p_byte_order = PyStr ''big''\<rparr>] \<and>
   get_fields_csv_file parse_decimal example_fs ''simple_csv_3col.csv'' =
     Inr [\<lparr>p_name = PyStr ''SHCOARSE'', p_data_type = PyStr ''uint'', p_bit_length = PyInt 32,
           p_bit_offset = PyNone, p_byte_order = PyStr ''big''\<rparr>,
          \<lparr>p_name = PyStr ''VOLTAGE'', p_data_type = PyStr ''int'', p_bit_length = PyInt 8,
           p_bit_offset = PyNone, p_byte_order = PyStr ''big''\<rparr>] \<and>
   length (DictReader_rows (hd simple_csv_3col) (tl simple_csv_3col)) = 2"
proof -
  have c4: "example_fs ''simple_csv_4col.csv'' = Some (hd simple_csv_4col # tl simple_csv_4col)"
    by (simp add: example_fs_def simple_csv_4col_def)
  have h4: "''bit_offset'' \<in> set (hd simple_csv_4col)"
    by (simp add: simple_csv_4col_def)
  have c3: "example_fs ''simple_csv_3col.csv'' = Some (hd simple_csv_3col # tl simple_csv_3col)"
    by (simp add: example_fs_def simple_csv_3col_def)
  have h3: "''bit_offset'' \<notin> set (hd simple_csv_3col)"
    by (simp add: simple_csv_3col_def)
  from h4 csv_offsets_all_or_none
      [where fs = example_fs and path = "''simple_csv_4col.csv''", OF c4 load_4col]
  have 1: "list_all2 (\<lambda>row f. \<exists>s i. row ''bit_offset'' = Some (Some s) \<and> parse_decimal s = Some i \<and>
                         p_bit_offset f = PyInt i)
     (DictReader_rows (hd simple_csv_4col) (tl simple_csv_4col))
     [\<lparr>p_name = PyStr ''SHCOARSE'', p_data_type = PyStr ''uint'', p_bit_length = PyInt 32,
       p_bit_offset = PyInt 48, p_byte_order = PyStr ''big''\<rparr>,
      \<lparr>p_name = PyStr ''VOLTAGE'', p_data_type = PyStr ''int'', p_bit_length = PyInt 8,
       p_bit_offset = PyInt 80, p_byte_order = PyStr ''big''\<rparr>]"
    by blast
  from h3 csv_offsets_all_or_none
      [where fs = example_fs and path = "''simple_csv_3col.csv''", OF c3 load_3col]
  have 2: "length (DictReader_rows (hd simple_csv_3col) (tl simple_csv_3col)) = 2"
    by simp
  from load_4col 1 load_3col 2 show ?thesis by blast
qed

theorem csv_required_columns_witness:
  "\<not> {''name'', ''data_type'', ''bit_length''} \<subseteq> set [''name'', ''bit_length''] \<and>
   get_fields_csv_file parse_decimal example_fs ''bad.csv'' =
     Inl (ValueError ''Minimum required columns are ['name', 'data_type', 'bit_length'].'') \<and>
   {''name'', ''data_type'', ''bit_length''} \<subseteq> set [''name'', ''data_type'', ''bit_length''] \<and>
   list_all2 (\<lambda>row f. \<exists>nm dt s i.
                   row ''name'' = Some (Some nm) \<and>
                   row ''data_type'' = Some (Some dt) \<and> PyStr dt \<in> set valid_data_types \<and>
                   row ''bit_length'' = Some (Some s) \<and> parse_decimal s = Some i \<and>
                   (if ''bit_offset'' \<in> set [''name'', ''data_type'', ''bit_length'']
                    then \<exists>t j. row ''bit_offset'' = Some (Some t) \<and> parse_decimal t = Some j \<and>
                           f = \<lparr>p_name = PyStr nm, p_data_type = PyStr dt, p_bit_length = PyInt i,
                                p_bit_offset = PyInt j, p_byte_order = PyStr ''big''\<rparr>
                    else f = \<lparr>p_name = PyStr nm, p_data_type = PyStr dt, p_bit_length = PyInt i,
                              p_bit_offset = PyNone, p_byte_order = PyStr ''big''\<rparr>))
     (DictReader_rows [''name'', ''data_type'', ''bit_length''] [[''SHCOARSE'', ''uint'', ''32''], [], [''VOLTAGE'', ''int'', ''8'']])
     [\<lparr>p_name = PyStr ''SHCOARSE'', p_data_type = PyStr ''uint'', p_bit_length = PyInt 32,
       p_bit_offset = PyNone, p_byte_order = PyStr ''big''\<rparr>,
      \<lparr>p_name = PyStr ''VOLTAGE'', p_data_type = PyStr ''int'', p_bit_length = PyInt 8,
       p_bit_offset = PyNone, p_byte_order = PyStr ''big''\<rparr>] \<and>
   get_fields_csv_file parse_decimal example_fs ''simple_csv_3col.csv'' =
     Inr [\<lparr>p_name = PyStr ''SHCOARSE'', p_data_type = PyStr ''uint'', p_bit_length = PyInt 32,
       p_bit_offset = PyNone, p_byte_order = PyStr ''big''\<rparr>,
      \<lparr>p_name = PyStr ''VOLTAGE'', p_data_type = PyStr ''int'', p_bit_length = PyInt 8,
       p_bit_offset = PyNone, p_byte_order = PyStr ''big''\<rparr>]"
proof -
  have cb: "example_fs ''bad.csv'' = Some ([''name'', ''bit_length''] # [[''SHCOARSE'', ''32'']])"
    by (simp add: example_fs_def csv_without_data_type_def)
  have hb: "\<not> {''name'', ''data_type'', ''bit_length''} \<subseteq> set [''name'', ''bit_length'']"
    by simp
  have c3: "example_fs ''simple_csv_3col.csv'' = Some ([''name'', ''data_type'', ''bit_length''] # [[''SHCOARSE'', ''uint'', ''32''], [], [''VOLTAGE'', ''int'', ''8'']])"
    by (simp add: example_fs_def simple_csv_3col_def)
  have h3: "{''name'', ''data_type'', ''bit_length''} \<subseteq> set [''name'', ''data_type'', ''bit_length'']"
    by simp
  have cells:
    "dict_of_row [''name'', ''data_type'', ''bit_length''] [''SHCOARSE'', ''uint'', ''32''] ''name'' = Some (Some ''SHCOARSE'')"
    "dict_of_row [''name'', ''data_type'', ''bit_length''] [''SHCOARSE'', ''uint'', ''32''] ''data_type'' = Some (Some ''uint'')"
    "dict_of_row [''name'', ''data_type'', ''bit_length''] [''SHCOARSE'', ''uint'', ''32''] ''bit_length'' = Some (Some ''32'')"
    "dict_of_row [''name'', ''data_type'', ''bit_length''] [''VOLTAGE'', ''int'', ''8''] ''name'' = Some (Some ''VOLTAGE'')"
    "dict_of_row [''name'', ''data_type'', ''bit_length''] [''VOLTAGE'', ''int'', ''8''] ''data_type'' = Some (Some ''int'')"
    "dict_of_row [''name'', ''data_type'', ''bit_length''] [''VOLTAGE'', ''int'', ''8''] ''bit_length'' = Some (Some ''8'')"
    "parse_decimal ''32'' = Some 32"
    "parse_decimal ''8'' = Some 8"
    by code_simp+
  have rows: "list_all2 (\<lambda>row f. \<exists>nm dt s i.
                   row ''name'' = Some (Some nm) \<and>
                   row ''data_type'' = Some (Some dt) \<and> PyStr dt \<in> set valid_data_types \<and>
                   row ''bit_length'' = Some (Some s) \<and> parse_decimal s = Some i \<and>
                   (if ''bit_offset'' \<in> set [''name'', ''data_type'', ''bit_length'']
                    then \<exists>t j. row ''bit_offset'' = Some (Some t) \<and> parse_decimal t = Some j \<and>
                           f = \<lparr>p_name = PyStr nm, p_data_type = PyStr dt, p_bit_length = PyInt i,
                                p_bit_offset = PyInt j, p_byte_order = PyStr ''big''\<rparr>
                    else f = \<lparr>p_name = PyStr nm, p_data_type = PyStr dt, p_bit_length = PyInt i,
                              p_bit_offset = PyNone, p_byte_order = PyStr ''big''\<rparr>))
     (DictReader_rows [''name'', ''data_type'', ''bit_length''] [[''SHCOARSE'', ''uint'', ''32''], [], [''VOLTAGE'', ''int'', ''8'']])
     [\<lparr>p_name = PyStr ''SHCOARSE'', p_data_type = PyStr ''uint'', p_bit_length = PyInt 32,
       p_bit_offset = PyNone, p_byte_order = PyStr ''big''\<rparr>,
      \<lparr>p_name = PyStr ''VOLTAGE'', p_data_type = PyStr ''int'', p_bit_length = PyInt 8,
       p_bit_offset = PyNone, p_byte_order = PyStr ''big''\<rparr>]"
    by (simp add: DictReader_rows_def cells valid_data_types_def)
  from hb csv_required_columns
      [where fs = example_fs and path = "''bad.csv''" and parse = parse_decimal, OF cb]
  have 1: "get_fields_csv_file parse_decimal example_fs ''bad.csv'' =
     Inl (ValueError ''Minimum required columns are ['name', 'data_type', 'bit_length'].'')"
    by blast
  from h3 rows csv_required_columns
      [where fs = example_fs and path = "''simple_csv_3col.csv''" and parse = parse_decimal, OF c3]
  have 2: "get_fields_csv_file parse_decimal example_fs ''simple_csv_3col.csv'' =
     Inr [\<lparr>p_name = PyStr ''SHCOARSE'', p_data_type = PyStr ''uint'', p_bit_length = PyInt 32,
       p_bit_offset = PyNone, p_byte_order = PyStr ''big''\<rparr>,
      \<lparr>p_name = PyStr ''VOLTAGE'', p_data_type = PyStr ''int'', p_bit_length = PyInt 8,
       p_bit_offset = PyNone, p_byte_order = PyStr ''big''\<rparr>]"
    by blast
  from hb 1 h3 rows 2 show ?thesis by blast
qed

theorem from_file_requires_csv_extension_witness:
  "snd (os_path_splitext ''layout.txt'') \<noteq> ''.csv'' \<and>
   FixedLength_from_file parse_decimal example_fs empty_heap ''layout.txt'' =
     (empty_heap, Inl (ValueError ''File type .txt not supported.'')) \<and>
   snd (os_path_splitext ''simple_csv_3col.csv'') = ''.csv'' \<and>
   (\<exists>h' inst. FixedLength_from_file parse_decimal example_fs empty_heap ''simple_csv_3col.csv'' =
        (h', Inr inst) \<and>
      deref h' (fl_fields inst) =
        [\<lparr>p_name = PyStr ''SHCOARSE'', p_data_type = PyStr ''uint'', p_bit_length = PyInt 32,
          p_bit_offset = PyNone, p_byte_order = PyStr ''big''\<rparr>,
         \<lparr>p_name = PyStr ''VOLTAGE'', p_data_type = PyStr ''int'', p_bit_length = PyInt 8,
          p_bit_offset = PyNone, p_byte_order = PyStr ''big''\<rparr>])"
proof -
  have t: "snd (os_path_splitext ''layout.txt'') \<noteq> ''.csv''"
    by (simp add: splitext_examples)
  have c: "snd (os_path_splitext ''simple_csv_3col.csv'') = ''.csv''"
    by (simp add: splitext_examples)
  from t from_file_requires_csv_extension [of "''layout.txt''" parse_decimal example_fs empty_heap]
  have 1: "FixedLength_from_file parse_decimal example_fs empty_heap ''layout.txt'' =
     (empty_heap, Inl (ValueError ''File type .txt not supported.''))"
    by (simp add: splitext_examples)
  from c from_file_requires_csv_extension
    [of "''simple_csv_3col.csv''" parse_decimal example_fs empty_heap]
  have 2: "\<exists>h' inst. FixedLength_from_file parse_decimal example_fs empty_heap ''simple_csv_3col.csv'' =
        (h', Inr inst) \<and>
      deref h' (fl_fields inst) =
        [\<lparr>p_name = PyStr ''SHCOARSE'', p_data_type = PyStr ''uint'', p_bit_length = PyInt 32,
          p_bit_offset = PyNone, p_byte_order = PyStr ''big''\<rparr>,
         \<lparr>p_name = PyStr ''VOLTAGE'', p_data_type = PyStr ''int'', p_bit_length = PyInt 8,
          p_bit_offset = PyNone, p_byte_order = PyStr ''big''\<rparr>]"
    by (simp add: load_3col)
  from t 1 c 2 show ?thesis by blast
qed

end
